theory Spec2Isabelle
  imports Main
begin

section \<open>JavaScript string primitives used by the server\<close>

text \<open>
  Strings are lists of characters.  The functions below stand for the built-in
  \<^verbatim>\<open>String.prototype\<close> and \<^verbatim>\<open>Array.prototype\<close> methods that
  \<^verbatim>\<open>src/index.ts\<close> calls: \<^verbatim>\<open>startsWith\<close>, \<^verbatim>\<open>split\<close>,
  \<^verbatim>\<open>join\<close>, \<^verbatim>\<open>toLowerCase\<close>, \<^verbatim>\<open>slice\<close> and the decimal
  rendering of a number inside a template literal.
\<close>

fun startsWith :: "string \<Rightarrow> string \<Rightarrow> bool" where
  "startsWith s [] = True"
| "startsWith [] (p # ps) = False"
| "startsWith (c # cs) (p # ps) = (c = p \<and> startsWith cs ps)"

text \<open>\<^verbatim>\<open>s.split(sep)\<close> for a one-character separator: never the empty array.\<close>

fun split :: "char \<Rightarrow> string \<Rightarrow> string list" where
  "split sep [] = [[]]"
| "split sep (c # cs) =
     (if c = sep then [] # split sep cs
      else (case split sep cs of
              [] \<Rightarrow> [[c]]
            | s # ss \<Rightarrow> (c # s) # ss))"

text \<open>\<^verbatim>\<open>xs.join(sep)\<close>.\<close>

fun join :: "string \<Rightarrow> string list \<Rightarrow> string" where
  "join sep [] = []"
| "join sep [x] = x"
| "join sep (x # y # zs) = x @ sep @ join sep (y # zs)"

text \<open>
  \<^verbatim>\<open>toLowerCase\<close>, on the ASCII letters.  (Characters are bytes here; the
  case mapping of code points beyond ASCII is outside the model.)
\<close>

definition lowerChar :: "char \<Rightarrow> char" where
  "lowerChar c =
     (case map_of (zip ''ABCDEFGHIJKLMNOPQRSTUVWXYZ'' ''abcdefghijklmnopqrstuvwxyz'') c of
        None \<Rightarrow> c
      | Some l \<Rightarrow> l)"

definition toLowerCase :: "string \<Rightarrow> string" where
  "toLowerCase s = map lowerChar s"

text \<open>The decimal numeral of a natural number, as a template literal prints it.\<close>

fun showNat :: "nat \<Rightarrow> string" where
  "showNat n =
     (if n < 10 then [''0123456789'' ! n]
      else showNat (n div 10) @ [''0123456789'' ! (n mod 10)])"

declare showNat.simps [simp del]

section \<open>The POSIX flavour of Node's path module\<close>

text \<open>
  \<^verbatim>\<open>node:path\<close> is library code, not part of the repository.  Its POSIX
  variant is modelled here on path segments: \<^verbatim>\<open>path.sep\<close> is the slash,
  \<^verbatim>\<open>normalizeString\<close> drops empty and \<^verbatim>\<open>.\<close> segments and lets
  \<^verbatim>\<open>..\<close> remove the segment before it (or, for a relative path, pile up in
  front).
\<close>

definition sep :: char where
  "sep = CHR ''/''"

definition isAbsolute :: "string \<Rightarrow> bool" where
  "isAbsolute p = (case p of [] \<Rightarrow> False | c # _ \<Rightarrow> c = CHR ''/'')"

fun normSegments :: "bool \<Rightarrow> string list \<Rightarrow> string list \<Rightarrow> string list" where
  "normSegments allowAboveRoot res [] = res"
| "normSegments allowAboveRoot res (s # ss) =
     (if s = [] \<or> s = ''.'' then normSegments allowAboveRoot res ss
      else if s = ''..'' then
        (if res \<noteq> [] \<and> last res \<noteq> ''..'' then normSegments allowAboveRoot (butlast res) ss
         else if allowAboveRoot then normSegments allowAboveRoot (res @ [''..'']) ss
         else normSegments allowAboveRoot res ss)
      else normSegments allowAboveRoot (res @ [s]) ss)"

definition normalizeString :: "string \<Rightarrow> bool \<Rightarrow> string" where
  "normalizeString p allowAboveRoot =
     join ''/'' (normSegments allowAboveRoot [] (split CHR ''/'' p))"

text \<open>\<^verbatim>\<open>path.normalize\<close>.\<close>

definition normalize :: "string \<Rightarrow> string" where
  "normalize p =
     (if p = [] then ''.''
      else
        let isAbs = (hd p = CHR ''/'');
            trailingSeparator = (last p = CHR ''/'');
            n = normalizeString p (\<not> isAbs)
        in if n = [] then (if isAbs then ''/'' else if trailingSeparator then ''./'' else ''.'')
           else (if isAbs then ''/'' else []) @ n @ (if trailingSeparator then ''/'' else []))"

text \<open>\<^verbatim>\<open>path.join(...args)\<close>: the non-empty arguments, slash-separated, normalized.\<close>

definition pathJoin :: "string list \<Rightarrow> string" where
  "pathJoin args =
     (let parts = filter (\<lambda>a. a \<noteq> []) args
      in if parts = [] then ''.'' else normalize (join ''/'' parts))"

text \<open>
  \<^verbatim>\<open>path.resolve(...args)\<close>: the arguments are prepended from the right until
  an absolute one is met; the working directory is the last resort.
\<close>

fun resolveLoop :: "string list \<Rightarrow> string \<Rightarrow> string \<times> bool" where
  "resolveLoop [] resolvedPath = (resolvedPath, False)"
| "resolveLoop (p # ps) resolvedPath =
     (if p = [] then resolveLoop ps resolvedPath
      else if hd p = CHR ''/'' then (p @ ''/'' @ resolvedPath, True)
      else resolveLoop ps (p @ ''/'' @ resolvedPath))"

definition resolve :: "string \<Rightarrow> string list \<Rightarrow> string" where
  "resolve cwd args =
     (case resolveLoop (rev args @ [cwd]) [] of
        (resolvedPath, resolvedAbsolute) \<Rightarrow>
          let n = normalizeString resolvedPath (\<not> resolvedAbsolute)
          in if resolvedAbsolute then ''/'' @ n
             else if n \<noteq> [] then n else ''.'')"

text \<open>
  \<^verbatim>\<open>path.dirname\<close>: trailing slashes are skipped, then everything up to the
  slash before the last segment is kept.
\<close>

fun dropTrailingSeps :: "string \<Rightarrow> string" where
  "dropTrailingSeps s = rev (dropWhile (\<lambda>c. c = CHR ''/'') (rev s))"

definition dirname :: "string \<Rightarrow> string" where
  "dirname p =
     (if p = [] then ''.''
      else
        let hasRoot = (hd p = CHR ''/'');
            body = dropTrailingSeps (tl p);
            keep = rev (tl (dropWhile (\<lambda>c. c \<noteq> CHR ''/'') (rev body)))
        in if CHR ''/'' \<notin> set body then (if hasRoot then ''/'' else ''.'')
           else if hasRoot \<and> keep = [] then ''//''
           else hd p # keep)"

section \<open>Environment, errors and the filesystem interface\<close>

text \<open>
  Every exception of the source is an \<^verbatim>\<open>Error\<close> carrying a message; a
  computation that may throw returns \<open>error + 'a\<close>, with \<open>Inl\<close> for the throw.
\<close>

datatype error = Error (message: string)

definition tryCatch :: "error + 'a \<Rightarrow> (error \<Rightarrow> error + 'a) \<Rightarrow> error + 'a" where
  "tryCatch body handler = (case body of Inl e \<Rightarrow> handler e | Inr v \<Rightarrow> Inr v)"

text \<open>\<^verbatim>\<open>process.cwd()\<close> and \<^verbatim>\<open>os.homedir()\<close>.\<close>

record env =
  cwd :: string
  homedir :: string

record config =
  obsidianVaultPath :: string

record dirent =
  name :: string
  isDirectory :: bool

text \<open>
  \<^verbatim>\<open>node:fs/promises\<close> is the other library the server calls.  Nothing of
  it is in the repository, so its four functions are parameters: \<open>'fs\<close> is the state of
  the filesystem, and only \<open>writeFile\<close> returns a new one.
\<close>

record 'fs fsops =
  realpath :: "'fs \<Rightarrow> string \<Rightarrow> error + string"
  readFile :: "'fs \<Rightarrow> string \<Rightarrow> error + string"
  writeFile :: "'fs \<Rightarrow> string \<Rightarrow> string \<Rightarrow> error + 'fs"
  readdir :: "'fs \<Rightarrow> string \<Rightarrow> error + dirent list"

section \<open>Allowed directories and path validation\<close>

definition normalizePath :: "string \<Rightarrow> string" where
  "normalizePath p = toLowerCase (normalize p)"

definition expandHome :: "env \<Rightarrow> string \<Rightarrow> string" where
  "expandHome e filepath =
     (if startsWith filepath ''~/'' \<or> filepath = ''~''
      then pathJoin [homedir e, drop 1 filepath]
      else filepath)"

text \<open>The module-level constant: one allowed directory, stored in normalized form.\<close>

definition vaultDirectories :: "config \<Rightarrow> env \<Rightarrow> string list" where
  "vaultDirectories c e =
     [normalizePath (resolve (cwd e) [expandHome e (obsidianVaultPath c)])]"

text \<open>
  \<^verbatim>\<open>validatePath\<close>, lines 67 to 125.  The list \<open>vds\<close> is the value of
  \<^verbatim>\<open>vaultDirectories\<close>.  Both \<^verbatim>\<open>throw\<close> statements that stand inside a
  \<^verbatim>\<open>try\<close> block are caught by the \<^verbatim>\<open>catch\<close> of that block, as in
  the source.
\<close>

definition validatePath ::
  "string list \<Rightarrow> env \<Rightarrow> 'fs fsops \<Rightarrow> 'fs \<Rightarrow> string \<Rightarrow> error + string" where
  "validatePath vds e ops fs requestedPath =
     (let pathParts = split sep requestedPath in
      if list_ex (\<lambda>part. startsWith part ''.'') pathParts
      then Inl (Error ''Access denied - hidden files/directories not allowed'')
      else
        let expandedPath = expandHome e requestedPath;
            absolute = (if isAbsolute expandedPath
                        then resolve (cwd e) [expandedPath]
                        else resolve (cwd e) [cwd e, expandedPath]);
            normalizedRequested = normalizePath absolute;
            isAllowed = list_ex (\<lambda>dir. startsWith normalizedRequested dir) vds
        in
          if \<not> isAllowed
          then Inl (Error (''Access denied - path outside allowed directories: '' @ absolute
                           @ '' not in '' @ join '', '' vds))
          else
            tryCatch
              (case realpath ops fs absolute of
                 Inl err \<Rightarrow> Inl err
               | Inr realPath \<Rightarrow>
                   let normalizedReal = normalizePath realPath;
                       isRealPathAllowed = list_ex (\<lambda>dir. startsWith normalizedReal dir) vds
                   in if \<not> isRealPathAllowed
                      then Inl (Error ''Access denied - symlink target outside allowed directories'')
                      else Inr realPath)
              (\<lambda>error.
                 let parentDir = dirname absolute in
                 tryCatch
                   (case realpath ops fs parentDir of
                      Inl err \<Rightarrow> Inl err
                    | Inr realParentPath \<Rightarrow>
                        let normalizedParent = normalizePath realParentPath;
                            isParentAllowed = list_ex (\<lambda>dir. startsWith normalizedParent dir) vds
                        in if \<not> isParentAllowed
                           then Inl (Error ''Access denied - parent directory outside allowed directories'')
                           else Inr absolute)
                   (\<lambda>_. Inl (Error (''Parent directory does not exist: '' @ parentDir)))))"

text \<open>
  Names for what \<^verbatim>\<open>validatePath\<close> computes on the way, used to state its
  properties: the hidden-segment test, the value it binds to \<^verbatim>\<open>absolute\<close>,
  and the prefix test \<^verbatim>\<open>vaultDirectories.some((dir) => p.startsWith(dir))\<close> on a
  normalized path.
\<close>

definition hasHiddenPart :: "string \<Rightarrow> bool" where
  "hasHiddenPart requestedPath = list_ex (\<lambda>part. startsWith part ''.'') (split sep requestedPath)"

definition absoluteOf :: "env \<Rightarrow> string \<Rightarrow> string" where
  "absoluteOf e requestedPath =
     (let expandedPath = expandHome e requestedPath
      in if isAbsolute expandedPath
         then resolve (cwd e) [expandedPath]
         else resolve (cwd e) [cwd e, expandedPath])"

definition underAllowed :: "string list \<Rightarrow> string \<Rightarrow> bool" where
  "underAllowed vds p = list_ex (\<lambda>dir. startsWith (normalizePath p) dir) vds"

definition accessDenied :: "error \<Rightarrow> bool" where
  "accessDenied err = startsWith (message err) ''Access denied''"

section \<open>Tool handlers\<close>

text \<open>
  A tool response is the text of its single content item and the \<^verbatim>\<open>isError\<close>
  flag; a response that leaves the flag out has it \<open>False\<close>.  Arguments are modelled as
  they are after a successful \<^verbatim>\<open>safeParse\<close>.
\<close>

record response =
  content :: string
  isError :: bool

text \<open>
  The \<^verbatim>\<open>catch\<close> around the whole \<^verbatim>\<open>switch\<close> (lines 381 to 387)
  turns whatever a handler throws into a response.
\<close>

definition respond :: "error + response \<Rightarrow> response" where
  "respond r =
     (case r of
        Inr res \<Rightarrow> res
      | Inl err \<Rightarrow> \<lparr>content = ''Error: '' @ message err, isError = True\<rparr>)"

text \<open>
  The handlers read the module-level \<^verbatim>\<open>vaultDirectories\<close>, which is
  \<open>vaultDirectories c e\<close> for the configuration \<open>c\<close> and the environment \<open>e\<close> of the
  process; nothing in the source changes the working directory or the home directory
  after startup, so the same \<open>e\<close> serves every request.
\<close>

text \<open>\<^verbatim>\<open>obsidian_read_notes\<close>: the function mapped over the paths, then the handler.\<close>

definition readNote :: "config \<Rightarrow> env \<Rightarrow> 'fs fsops \<Rightarrow> 'fs \<Rightarrow> string \<Rightarrow> string" where
  "readNote c e ops fs filePath =
     (let vds = vaultDirectories c e in
      case (case validatePath vds e ops fs (pathJoin [vds ! 0, filePath]) of
              Inl err \<Rightarrow> Inl err
            | Inr validPath \<Rightarrow>
                (case readFile ops fs validPath of
                   Inl err \<Rightarrow> Inl err
                 | Inr text \<Rightarrow> Inr (filePath @ '':\<newline>'' @ text @ ''\<newline>''))) of
        Inr fragment \<Rightarrow> fragment
      | Inl error \<Rightarrow> filePath @ '': Error - '' @ message error)"

definition obsidian_read_notes ::
  "config \<Rightarrow> env \<Rightarrow> 'fs fsops \<Rightarrow> 'fs \<Rightarrow> string list \<Rightarrow> response" where
  "obsidian_read_notes c e ops fs paths =
     (let results = map (readNote c e ops fs) paths
      in \<lparr>content = join ''\<newline>---\<newline>'' results, isError = False\<rparr>)"

text \<open>
  \<^verbatim>\<open>obsidian_search_notes\<close>, from line 288 on: \<open>results\<close> is what
  \<^verbatim>\<open>searchNotes(query)\<close> returned.
\<close>

definition SEARCH_LIMIT :: nat where
  "SEARCH_LIMIT = 200"

definition obsidian_search_notes :: "string list \<Rightarrow> response" where
  "obsidian_search_notes results =
     (let limitedResults = take SEARCH_LIMIT results
      in \<lparr>content =
            (if length limitedResults > 0 then join ''\<newline>'' limitedResults
             else ''No matches found'')
            @ (if length results > SEARCH_LIMIT
               then ''\<newline>\<newline>... '' @ showNat (length results - SEARCH_LIMIT)
                    @ '' more results not shown.''
               else []),
          isError = False\<rparr>)"

text \<open>\<^verbatim>\<open>s.replace(pattern, replacement)\<close> with a string pattern: the first occurrence.\<close>

fun replace :: "string \<Rightarrow> string \<Rightarrow> string \<Rightarrow> string" where
  "replace [] pat rep = (if pat = [] then rep else [])"
| "replace (c # cs) pat rep =
     (if startsWith (c # cs) pat then rep @ drop (length pat) (c # cs)
      else c # replace cs pat rep)"

text \<open>
  \<^verbatim>\<open>obsidian_read_notes_dir\<close>.  \<^verbatim>\<open>listDirs\<close> recurses as deep as the
  directory tree that \<^verbatim>\<open>readdir\<close> describes; the model bounds the depth by a
  counter and returns \<open>None\<close> when it runs out.  A failure of \<^verbatim>\<open>readdir\<close> is
  thrown to the caller: the enclosing loop body catches it, the handler does not.
\<close>

fun listDirs ::
    "nat \<Rightarrow> config \<Rightarrow> env \<Rightarrow> 'fs fsops \<Rightarrow> 'fs \<Rightarrow> string \<Rightarrow> string list
       \<Rightarrow> (error + string list) option"
  and listDirsLoop ::
    "nat \<Rightarrow> config \<Rightarrow> env \<Rightarrow> 'fs fsops \<Rightarrow> 'fs \<Rightarrow> string \<Rightarrow> dirent list \<Rightarrow> string list
       \<Rightarrow> (error + string list) option" where
  "listDirs 0 c e ops fs currentPath dirs = None"
| "listDirs (Suc depth) c e ops fs currentPath dirs =
     (case readdir ops fs currentPath of
        Inl err \<Rightarrow> Some (Inl err)
      | Inr entries \<Rightarrow> listDirsLoop depth c e ops fs currentPath entries dirs)"
| "listDirsLoop depth c e ops fs currentPath [] dirs = Some (Inr dirs)"
| "listDirsLoop depth c e ops fs currentPath (entry # entries) dirs =
     (if isDirectory entry then
        let fullPath = pathJoin [currentPath, name entry] in
        (case validatePath (vaultDirectories c e) e ops fs fullPath of
           Inl err \<Rightarrow> listDirsLoop depth c e ops fs currentPath entries dirs
         | Inr _ \<Rightarrow>
             let dirs1 = dirs @ [replace fullPath (vaultDirectories c e ! 0) []] in
             (case listDirs depth c e ops fs fullPath dirs1 of
                None \<Rightarrow> None
              | Some (Inl err) \<Rightarrow> listDirsLoop depth c e ops fs currentPath entries dirs1
              | Some (Inr dirs2) \<Rightarrow> listDirsLoop depth c e ops fs currentPath entries dirs2))
      else listDirsLoop depth c e ops fs currentPath entries dirs)"

definition obsidian_read_notes_dir ::
  "nat \<Rightarrow> config \<Rightarrow> env \<Rightarrow> 'fs fsops \<Rightarrow> 'fs \<Rightarrow> string \<Rightarrow> (error + response) option" where
  "obsidian_read_notes_dir depth c e ops fs path =
     (let vds = vaultDirectories c e in
      case validatePath vds e ops fs (pathJoin [vds ! 0, path]) of
        Inl err \<Rightarrow> Some (Inl err)
      | Inr validPath \<Rightarrow>
          (case listDirs depth c e ops fs validPath [] of
             None \<Rightarrow> None
           | Some (Inl err) \<Rightarrow> Some (Inl err)
           | Some (Inr dirs) \<Rightarrow> Some (Inr \<lparr>content = join ''\<newline>'' dirs, isError = False\<rparr>)))"

text \<open>
  \<^verbatim>\<open>obsidian_write_note\<close>: one \<^verbatim>\<open>try\<close> block holds the validation and
  the write, and its \<^verbatim>\<open>catch\<close> returns the guidance text.  The handler also
  returns the state of the filesystem it leaves behind.
\<close>

definition obsidian_write_note ::
  "config \<Rightarrow> env \<Rightarrow> 'fs fsops \<Rightarrow> 'fs \<Rightarrow> string \<Rightarrow> string \<Rightarrow> response \<times> 'fs" where
  "obsidian_write_note c e ops fs path text =
     (let vds = vaultDirectories c e in
      case (case validatePath vds e ops fs (pathJoin [vds ! 0, path]) of
              Inl err \<Rightarrow> Inl err
            | Inr validPath \<Rightarrow> writeFile ops fs validPath text) of
        Inr fs' \<Rightarrow>
          (\<lparr>content = ''Note successfully written to '' @ path, isError = False\<rparr>, fs')
      | Inl error \<Rightarrow>
          (\<lparr>content = ''Please specify the target directory. Available directories:\<newline>''
                       @ join ''\<newline>'' vds,
            isError = True\<rparr>, fs))"

section \<open>What is assumed of the filesystem\<close>


section \<open>A small concrete world\<close>

text \<open>
  An environment, a configuration and a filesystem on which the theorems below are
  instantiated.  The filesystem has four directories, a symbolic link
  \<^verbatim>\<open>/vault/link\<close> that points to \<^verbatim>\<open>/etc/passwd\<close>, a symbolic link
  \<^verbatim>\<open>/vault/alias.md\<close> that points to \<^verbatim>\<open>/vault/a.md\<close>, and a state that
  maps the real path of each regular file to its text.  \<^verbatim>\<open>readdir\<close> lists
  \<^verbatim>\<open>/vault\<close> as the directory \<^verbatim>\<open>notes\<close> and the file \<^verbatim>\<open>a.md\<close>, and
  \<^verbatim>\<open>/vault/notes\<close> as empty.
\<close>

definition exampleEnv :: env where
  "exampleEnv = \<lparr>cwd = ''/srv'', homedir = ''/home/u''\<rparr>"

definition exampleConfig :: config where
  "exampleConfig = \<lparr>obsidianVaultPath = ''/Vault''\<rparr>"

type_synonym files = "string \<Rightarrow> string option"

definition exampleDirs :: "string list" where
  "exampleDirs = [''/'', ''/vault'', ''/vault/notes'', ''/etc'']"

definition linkTarget :: "string \<Rightarrow> string" where
  "linkTarget p =
     (if p = ''/vault/link'' then ''/etc/passwd''
      else if p = ''/vault/alias.md'' then ''/vault/a.md''
      else p)"

definition exampleOps :: "files fsops" where
  "exampleOps =
     \<lparr>realpath = (\<lambda>fs p.
        if linkTarget p \<in> set exampleDirs \<or> fs (linkTarget p) \<noteq> None then Inr (linkTarget p)
        else Inl (Error ''ENOENT: no such file or directory'')),
      readFile = (\<lambda>fs p.
        case fs (linkTarget p) of
          Some t \<Rightarrow> Inr t
        | None \<Rightarrow>
            if linkTarget p \<in> set exampleDirs
            then Inl (Error ''EISDIR: illegal operation on a directory'')
            else Inl (Error ''ENOENT: no such file or directory'')),
      writeFile = (\<lambda>fs p t.
        if linkTarget p \<in> set exampleDirs
        then Inl (Error ''EISDIR: illegal operation on a directory'')
        else if dirname (linkTarget p) \<in> set exampleDirs
        then Inr (fs(linkTarget p \<mapsto> t))
        else Inl (Error ''ENOENT: no such file or directory'')),
      readdir = (\<lambda>fs p.
        if p = ''/vault''
        then Inr [\<lparr>name = ''notes'', isDirectory = True\<rparr>,
                  \<lparr>name = ''a.md'', isDirectory = False\<rparr>]
        else if p = ''/vault/notes'' then Inr []
        else Inl (Error ''ENOTDIR: not a directory''))\<rparr>"

definition exampleFiles :: files where
  "exampleFiles = [''/vault/a.md'' \<mapsto> ''alpha'', ''/etc/passwd'' \<mapsto> ''root:x:0:0'']"

section \<open>Evaluation and unfolding lemmas\<close>

lemmas path_eval = sep_def expandHome_def isAbsolute_def resolve_def normalizeString_def
  normalizePath_def normalize_def toLowerCase_def lowerChar_def dirname_def pathJoin_def
  vaultDirectories_def hasHiddenPart_def underAllowed_def absoluteOf_def accessDenied_def Let_def

lemmas example_eval = exampleEnv_def exampleConfig_def exampleOps_def exampleFiles_def
  linkTarget_def exampleDirs_def

text \<open>
  \<^verbatim>\<open>validatePath\<close> as a decision tree over the three tests and the two calls of
  \<^verbatim>\<open>realpath\<close>.  A failure of the first \<^verbatim>\<open>try\<close> block, whether
  \<^verbatim>\<open>realpath\<close> failed or the real path was found outside, leads to the same
  check of the parent directory.
\<close>

lemma validatePath_unfold:
  "validatePath vds e ops fs p =
     (if hasHiddenPart p
      then Inl (Error ''Access denied - hidden files/directories not allowed'')
      else if \<not> underAllowed vds (absoluteOf e p)
      then Inl (Error (''Access denied - path outside allowed directories: '' @ absoluteOf e p
                       @ '' not in '' @ join '', '' vds))
      else case realpath ops fs (absoluteOf e p) of
             Inr realPath \<Rightarrow>
               if underAllowed vds realPath then Inr realPath
               else (case realpath ops fs (dirname (absoluteOf e p)) of
                       Inr realParentPath \<Rightarrow>
                         if underAllowed vds realParentPath then Inr (absoluteOf e p)
                         else Inl (Error (''Parent directory does not exist: '' @ dirname (absoluteOf e p)))
                     | Inl err \<Rightarrow> Inl (Error (''Parent directory does not exist: '' @ dirname (absoluteOf e p))))
           | Inl err \<Rightarrow>
               (case realpath ops fs (dirname (absoluteOf e p)) of
                       Inr realParentPath \<Rightarrow>
                         if underAllowed vds realParentPath then Inr (absoluteOf e p)
                         else Inl (Error (''Parent directory does not exist: '' @ dirname (absoluteOf e p)))
                     | Inl err \<Rightarrow> Inl (Error (''Parent directory does not exist: '' @ dirname (absoluteOf e p)))))"
  by (simp add: validatePath_def hasHiddenPart_def underAllowed_def absoluteOf_def tryCatch_def
        Let_def split: sum.splits)



text \<open>The fragment that \<^verbatim>\<open>obsidian_read_notes\<close> produces for one path.\<close>

lemma readNote_cases:
  "readNote c e ops fs filePath =
     (case validatePath (vaultDirectories c e) e ops fs
             (pathJoin [vaultDirectories c e ! 0, filePath]) of
        Inl err \<Rightarrow> filePath @ '': Error - '' @ message err
      | Inr validPath \<Rightarrow>
          (case readFile ops fs validPath of
             Inl err \<Rightarrow> filePath @ '': Error - '' @ message err
           | Inr text \<Rightarrow> filePath @ '':\<newline>'' @ text @ ''\<newline>''))"
  by (simp add: readNote_def Let_def split: sum.splits)

subsection \<open>Facts about the path functions\<close>

lemma isAbsolute_Cons: "isAbsolute p \<longleftrightarrow> (\<exists>cs. p = CHR ''/'' # cs)"
  by (cases p) (auto simp add: isAbsolute_def)

lemma split_not_Nil: "split c s \<noteq> []"
  by (induction s) (auto split: list.splits)

lemma split_append_sep: "split c (a @ c # b) = split c a @ split c b"
proof (induction a)
  case Nil
  show ?case by simp
next
  case (Cons x a)
  obtain s ss where "split c a = s # ss"
    using split_not_Nil [of c a] by (cases "split c a") auto
  with Cons show ?case by simp
qed

lemma normSegments_skip_empty:
  "normSegments a res (xs @ [] # ys) = normSegments a res (xs @ ys)"
  by (induction a res xs rule: normSegments.induct) auto

lemma normalizeString_double_sep:
  "normalizeString (r @ ''/'' @ ''/'' @ p) a = normalizeString (r @ ''/'' @ p) a"
proof -
  have "split CHR ''/'' (r @ ''/'' @ ''/'' @ p) = split CHR ''/'' r @ [] # split CHR ''/'' p"
    using split_append_sep [of "CHR ''/''" r "CHR ''/'' # p"] by simp
  moreover have "split CHR ''/'' (r @ ''/'' @ p) = split CHR ''/'' r @ split CHR ''/'' p"
    using split_append_sep [of "CHR ''/''" r p] by simp
  ultimately show ?thesis
    by (simp add: normalizeString_def normSegments_skip_empty)
qed

lemma pathJoin_leading_sep:
  assumes "r \<noteq> []" and "p \<noteq> []"
  shows "pathJoin [r, ''/'' @ p] = pathJoin [r, p]"
proof -
  from assms have "hd (r @ ''/'' @ ''/'' @ p) = hd (r @ ''/'' @ p)" by simp
  moreover from assms have "last (r @ ''/'' @ ''/'' @ p) = last (r @ ''/'' @ p)" by simp
  ultimately have "normalize (r @ ''/'' @ ''/'' @ p) = normalize (r @ ''/'' @ p)"
    unfolding normalize_def by (simp add: normalizeString_double_sep del: append.simps append_assoc)
  with assms show ?thesis
    by (simp add: pathJoin_def)
qed

lemma isAbsolute_normalize: "isAbsolute p \<Longrightarrow> isAbsolute (normalize p)"
  by (auto simp add: isAbsolute_Cons normalize_def Let_def)

lemma lowerChar_sep: "lowerChar CHR ''/'' = CHR ''/''"
  by (simp add: lowerChar_def)

lemma isAbsolute_normalizePath: "isAbsolute p \<Longrightarrow> isAbsolute (normalizePath p)"
proof -
  assume "isAbsolute p"
  then obtain cs where "normalize p = CHR ''/'' # cs"
    using isAbsolute_normalize isAbsolute_Cons by blast
  then show ?thesis
    by (simp add: normalizePath_def toLowerCase_def lowerChar_sep isAbsolute_def)
qed

lemma resolveLoop_absolute:
  "isAbsolute d \<Longrightarrow> snd (resolveLoop (ps @ [d]) acc)"
  by (induction ps arbitrary: acc) (auto simp add: isAbsolute_Cons)

lemma isAbsolute_resolve: "isAbsolute d \<Longrightarrow> isAbsolute (resolve d args)"
proof -
  assume "isAbsolute d"
  then have "snd (resolveLoop (rev args @ [d]) [])"
    by (rule resolveLoop_absolute)
  then show ?thesis
    by (cases "resolveLoop (rev args @ [d]) []") (simp add: resolve_def isAbsolute_def Let_def)
qed

lemma isAbsolute_root:
  "isAbsolute (cwd e) \<Longrightarrow> isAbsolute (vaultDirectories c e ! 0)"
  by (simp add: vaultDirectories_def isAbsolute_normalizePath isAbsolute_resolve)

lemma isAbsolute_pathJoin: "isAbsolute r \<Longrightarrow> isAbsolute (pathJoin [r, p])"
proof -
  assume "isAbsolute r"
  then obtain cs where r: "r = CHR ''/'' # cs" using isAbsolute_Cons by blast
  have "isAbsolute (join ''/'' (filter (\<lambda>a. a \<noteq> []) [r, p]))"
    using r by (simp add: isAbsolute_def)
  then have "isAbsolute (normalize (join ''/'' (filter (\<lambda>a. a \<noteq> []) [r, p])))"
    by (rule isAbsolute_normalize)
  with r show ?thesis
    by (simp add: pathJoin_def)
qed

lemma absoluteOf_absolute:
  assumes "isAbsolute q"
  shows "absoluteOf e q = ''/'' @ normalizeString (q @ ''/'') False"
proof -
  from assms obtain cs where q: "q = CHR ''/'' # cs" using isAbsolute_Cons by blast
  then have "expandHome e q = q"
    by (simp add: expandHome_def)
  with q assms show ?thesis
    by (simp add: absoluteOf_def resolve_def)
qed

lemma validatePath_env_irrelevant:
  assumes "isAbsolute q"
  shows "validatePath vds e' ops fs q = validatePath vds e ops fs q"
  unfolding validatePath_unfold absoluteOf_absolute [OF assms] by (rule refl)

text \<open>The examples of the Node documentation for \<^verbatim>\<open>path\<close>, evaluated on the model.\<close>

lemma node_path_examples:
  "normalize ''/foo/bar//baz/asdf/quux/..'' = ''/foo/bar/baz/asdf''"
  "pathJoin [''/foo'', ''bar'', ''baz/asdf'', ''quux'', ''..''] = ''/foo/bar/baz/asdf''"
  "resolve ''/home/myself/node'' [''/foo/bar'', ''./baz''] = ''/foo/bar/baz''"
  "resolve ''/home/myself/node'' [''/foo/bar'', ''/tmp/file/''] = ''/tmp/file''"
  "resolve ''/home/myself/node'' [''wwwroot'', ''static_files/png/'', ''../gif/image.gif'']
     = ''/home/myself/node/wwwroot/static_files/gif/image.gif''"
  "dirname ''/foo/bar/baz/asdf/quux'' = ''/foo/bar/baz/asdf''"
  "isAbsolute ''/baz/..''" "\<not> isAbsolute ''qux/''" "\<not> isAbsolute ''.''"
  "split CHR ''/'' ''/a//b/'' = [[], ''a'', [], ''b'', []]"
  "toLowerCase ''/Users/Me/My Vault'' = ''/users/me/my vault''"
  by (simp_all add: path_eval)

subsection \<open>The example world, evaluated\<close>

lemma showNat_50: "showNat 50 = ''50''"
  by (simp add: showNat.simps)

lemma example_vaultDirectories: "vaultDirectories exampleConfig exampleEnv = [''/vault'']"
  by (simp add: path_eval example_eval)

lemma example_realpath_alias:
  "realpath exampleOps exampleFiles ''/vault/alias.md'' = Inr ''/vault/a.md''"
  by (simp add: example_eval)

lemma example_realpath_new:
  "realpath exampleOps exampleFiles ''/vault/notes/new.md''
     = Inl (Error ''ENOENT: no such file or directory'')"
  by (simp add: example_eval)

lemma example_realpath_notes:
  "realpath exampleOps exampleFiles ''/vault/notes'' = Inr ''/vault/notes''"
  by (simp add: example_eval)

lemma example_absolute_alias: "absoluteOf exampleEnv ''/vault/alias.md'' = ''/vault/alias.md''"
  by (simp add: path_eval example_eval)

lemma example_absolute_new:
  "absoluteOf exampleEnv ''/vault/notes/new.md'' = ''/vault/notes/new.md''"
  by (simp add: path_eval example_eval)

lemma example_not_hidden_alias: "\<not> hasHiddenPart ''/vault/alias.md''"
  by (simp add: hasHiddenPart_def sep_def)

lemma example_not_hidden_new: "\<not> hasHiddenPart ''/vault/notes/new.md''"
  by (simp add: hasHiddenPart_def sep_def)

lemma example_allowed_alias: "underAllowed [''/vault''] ''/vault/alias.md''"
  by (simp add: path_eval)

lemma example_allowed_a: "underAllowed [''/vault''] ''/vault/a.md''"
  by (simp add: path_eval)

lemma example_allowed_new: "underAllowed [''/vault''] ''/vault/notes/new.md''"
  by (simp add: path_eval)

lemma example_allowed_notes: "underAllowed [''/vault''] ''/vault/notes''"
  by (simp add: path_eval)

lemma example_dirname_new: "dirname ''/vault/notes/new.md'' = ''/vault/notes''"
  by (simp add: dirname_def)

lemma example_validate_alias:
  "validatePath [''/vault''] exampleEnv exampleOps exampleFiles ''/vault/alias.md''
     = Inr ''/vault/a.md''"
  by (simp add: validatePath_unfold example_not_hidden_alias example_absolute_alias
        example_allowed_alias example_realpath_alias example_allowed_a)

lemma example_validate_new:
  "validatePath [''/vault''] exampleEnv exampleOps exampleFiles ''/vault/notes/new.md''
     = Inr ''/vault/notes/new.md''"
  by (simp add: validatePath_unfold example_not_hidden_new example_absolute_new
        example_allowed_new example_realpath_new example_dirname_new example_realpath_notes
        example_allowed_notes)

lemma example_not_hidden_link: "\<not> hasHiddenPart ''/vault/link''"
  by (simp add: hasHiddenPart_def sep_def)

lemma example_absolute_link: "absoluteOf exampleEnv ''/vault/link'' = ''/vault/link''"
  by (simp add: path_eval example_eval)

lemma example_allowed_link: "underAllowed [''/vault''] ''/vault/link''"
  by (simp add: path_eval)

lemma example_realpath_link:
  "realpath exampleOps exampleFiles ''/vault/link'' = Inr ''/etc/passwd''"
  by (simp add: example_eval)

lemma example_not_allowed_passwd: "\<not> underAllowed [''/vault''] ''/etc/passwd''"
  by (simp add: path_eval)

lemma example_dirname_link: "dirname ''/vault/link'' = ''/vault''"
  by (simp add: dirname_def)

lemma example_realpath_vault: "realpath exampleOps exampleFiles ''/vault'' = Inr ''/vault''"
  by (simp add: example_eval)

lemma example_allowed_vault: "underAllowed [''/vault''] ''/vault''"
  by (simp add: path_eval)

lemma example_join_link: "pathJoin [''/vault'', ''link''] = ''/vault/link''"
  by (simp add: path_eval)

lemma example_validate_link:
  "validatePath [''/vault''] exampleEnv exampleOps exampleFiles ''/vault/link'' = Inr ''/vault/link''"
  by (simp add: validatePath_unfold example_not_hidden_link example_absolute_link
        example_allowed_link example_realpath_link example_not_allowed_passwd
        example_dirname_link example_realpath_vault example_allowed_vault)

lemma example_readFile_link:
  "readFile exampleOps exampleFiles ''/vault/link'' = Inr ''root:x:0:0''"
  by (simp add: example_eval)

lemma example_join_escape: "pathJoin [''/vault'', ''../etc/shadow''] = ''/etc/shadow''"
  by (simp add: path_eval)

lemma example_validate_escape:
  "validatePath [''/vault''] exampleEnv exampleOps exampleFiles ''/etc/shadow''
     = Inl (Error ''Access denied - path outside allowed directories: /etc/shadow not in /vault'')"
proof -
  have "\<not> hasHiddenPart ''/etc/shadow''"
    by (simp add: hasHiddenPart_def sep_def)
  moreover have "absoluteOf exampleEnv ''/etc/shadow'' = ''/etc/shadow''"
    by (simp add: path_eval example_eval)
  moreover have "\<not> underAllowed [''/vault''] ''/etc/shadow''"
    by (simp add: path_eval)
  ultimately show ?thesis
    by (simp add: validatePath_unfold)
qed

lemma example_join_a: "pathJoin [''/vault'', ''a.md''] = ''/vault/a.md''"
  by (simp add: path_eval)

lemma example_join_missing: "pathJoin [''/vault'', ''missing.md''] = ''/vault/missing.md''"
  by (simp add: path_eval)

lemma example_validate_a:
  "validatePath [''/vault''] exampleEnv exampleOps exampleFiles ''/vault/a.md'' = Inr ''/vault/a.md''"
proof -
  have "\<not> hasHiddenPart ''/vault/a.md''"
    by (simp add: hasHiddenPart_def sep_def)
  moreover have "absoluteOf exampleEnv ''/vault/a.md'' = ''/vault/a.md''"
    by (simp add: path_eval example_eval)
  moreover have "realpath exampleOps exampleFiles ''/vault/a.md'' = Inr ''/vault/a.md''"
    by (simp add: example_eval)
  ultimately show ?thesis
    by (simp add: validatePath_unfold example_allowed_a)
qed

lemma example_validate_missing:
  "validatePath [''/vault''] exampleEnv exampleOps exampleFiles ''/vault/missing.md''
     = Inr ''/vault/missing.md''"
proof -
  have "\<not> hasHiddenPart ''/vault/missing.md''"
    by (simp add: hasHiddenPart_def sep_def)
  moreover have "absoluteOf exampleEnv ''/vault/missing.md'' = ''/vault/missing.md''"
    by (simp add: path_eval example_eval)
  moreover have "underAllowed [''/vault''] ''/vault/missing.md''"
    by (simp add: path_eval)
  moreover have "realpath exampleOps exampleFiles ''/vault/missing.md''
                   = Inl (Error ''ENOENT: no such file or directory'')"
    by (simp add: example_eval)
  moreover have "dirname ''/vault/missing.md'' = ''/vault''"
    by (simp add: dirname_def)
  ultimately show ?thesis
    by (simp add: validatePath_unfold example_realpath_vault example_allowed_vault)
qed

lemma example_readFile_a: "readFile exampleOps exampleFiles ''/vault/a.md'' = Inr ''alpha''"
  by (simp add: example_eval)

lemma example_readFile_missing:
  "readFile exampleOps exampleFiles ''/vault/missing.md''
     = Inl (Error ''ENOENT: no such file or directory'')"
  by (simp add: example_eval)






lemma example_write_alias:
  "writeFile exampleOps exampleFiles ''/vault/a.md'' ''beta''
     = Inr (exampleFiles(''/vault/a.md'' \<mapsto> ''beta''))"
  by (simp add: exampleOps_def linkTarget_def exampleDirs_def dirname_def)


lemma example_join_passwd: "pathJoin [''/vault'', ''etc/passwd''] = ''/vault/etc/passwd''"
  by (simp add: path_eval)

lemma example_validate_passwd:
  "validatePath [''/vault''] exampleEnv exampleOps exampleFiles ''/vault/etc/passwd''
     = Inl (Error ''Parent directory does not exist: /vault/etc'')"
proof -
  have "\<not> hasHiddenPart ''/vault/etc/passwd''"
    by (simp add: hasHiddenPart_def sep_def)
  moreover have "absoluteOf exampleEnv ''/vault/etc/passwd'' = ''/vault/etc/passwd''"
    by (simp add: path_eval example_eval)
  moreover have "underAllowed [''/vault''] ''/vault/etc/passwd''"
    by (simp add: path_eval)
  moreover have "realpath exampleOps exampleFiles ''/vault/etc/passwd''
                   = Inl (Error ''ENOENT: no such file or directory'')"
    by (simp add: example_eval)
  moreover have "dirname ''/vault/etc/passwd'' = ''/vault/etc''"
    by (simp add: dirname_def)
  moreover have "realpath exampleOps exampleFiles ''/vault/etc''
                   = Inl (Error ''ENOENT: no such file or directory'')"
    by (simp add: example_eval)
  ultimately show ?thesis
    by (simp add: validatePath_unfold)
qed

text \<open>The directory listing of the example world.\<close>

lemma example_readdir_vault:
  "readdir exampleOps exampleFiles ''/vault''
     = Inr [\<lparr>name = ''notes'', isDirectory = True\<rparr>, \<lparr>name = ''a.md'', isDirectory = False\<rparr>]"
  by (simp add: exampleOps_def)

lemma example_readdir_notes: "readdir exampleOps exampleFiles ''/vault/notes'' = Inr []"
  by (simp add: exampleOps_def)

lemma example_join_empty: "pathJoin [''/vault'', []] = ''/vault''"
  by (simp add: path_eval)

lemma example_join_notes: "pathJoin [''/vault'', ''notes''] = ''/vault/notes''"
  by (simp add: path_eval)

lemma example_validate_vault:
  "validatePath [''/vault''] exampleEnv exampleOps exampleFiles ''/vault'' = Inr ''/vault''"
proof -
  have "\<not> hasHiddenPart ''/vault''"
    by (simp add: hasHiddenPart_def sep_def)
  moreover have "absoluteOf exampleEnv ''/vault'' = ''/vault''"
    by (simp add: path_eval example_eval)
  ultimately show ?thesis
    by (simp add: validatePath_unfold example_allowed_vault example_realpath_vault)
qed

lemma example_validate_notes:
  "validatePath [''/vault''] exampleEnv exampleOps exampleFiles ''/vault/notes''
     = Inr ''/vault/notes''"
proof -
  have "\<not> hasHiddenPart ''/vault/notes''"
    by (simp add: hasHiddenPart_def sep_def)
  moreover have "absoluteOf exampleEnv ''/vault/notes'' = ''/vault/notes''"
    by (simp add: path_eval example_eval)
  ultimately show ?thesis
    by (simp add: validatePath_unfold example_allowed_notes example_realpath_notes)
qed

lemma example_replace_notes: "replace ''/vault/notes'' ''/vault'' [] = ''/notes''"
  by simp

lemma example_listDirs_vault:
  "listDirs (Suc (Suc 0)) exampleConfig exampleEnv exampleOps exampleFiles ''/vault'' []
     = Some (Inr [''/notes''])"
  by (simp add: example_vaultDirectories example_readdir_vault example_readdir_notes
        example_join_notes example_validate_notes example_replace_notes Let_def)

subsection \<open>The handlers in terms of the validated path\<close>

text \<open>
  The joined path written out, any number of leading slashes on the argument, and
  what each handler does with the path that validation returns.
\<close>

lemma pathJoin_two:
  assumes "r \<noteq> []"
  shows "pathJoin [r, p] = normalize (r @ (if p = [] then [] else ''/'' @ p))"
  using assms by (simp add: pathJoin_def Let_def)

lemma pathJoin_leading_seps:
  assumes "r \<noteq> []" and "p \<noteq> []"
  shows "pathJoin [r, replicate n CHR ''/'' @ p] = pathJoin [r, p]"
proof (induction n)
  case 0
  show ?case by simp
next
  case (Suc n)
  from assms(2) have "replicate n CHR ''/'' @ p \<noteq> []" by simp
  with assms(1) have "pathJoin [r, ''/'' @ (replicate n CHR ''/'' @ p)]
                        = pathJoin [r, replicate n CHR ''/'' @ p]"
    by (rule pathJoin_leading_sep)
  with Suc show ?case by simp
qed

lemma handlers_on_valid_path:
  assumes "validatePath (vaultDirectories c e) e ops fs
             (pathJoin [vaultDirectories c e ! 0, p]) = Inr validPath"
  shows "readNote c e ops fs p
           = (case readFile ops fs validPath of
                Inl err \<Rightarrow> p @ '': Error - '' @ message err
              | Inr t \<Rightarrow> p @ '':\<newline>'' @ t @ ''\<newline>'')"
    and "obsidian_read_notes_dir depth c e ops fs p
           = (case listDirs depth c e ops fs validPath [] of
                None \<Rightarrow> None
              | Some (Inl err) \<Rightarrow> Some (Inl err)
              | Some (Inr dirs) \<Rightarrow>
                  Some (Inr \<lparr>content = join ''\<newline>'' dirs, isError = False\<rparr>))"
    and "obsidian_write_note c e ops fs p written
           = (case writeFile ops fs validPath written of
                Inl err \<Rightarrow>
                  (\<lparr>content = ''Please specify the target directory. Available directories:\<newline>''
                               @ join ''\<newline>'' (vaultDirectories c e),
                    isError = True\<rparr>, fs)
              | Inr fs' \<Rightarrow>
                  (\<lparr>content = ''Note successfully written to '' @ p, isError = False\<rparr>, fs'))"
  using assms
  by (simp_all add: readNote_cases obsidian_read_notes_dir_def obsidian_write_note_def Let_def
        split: sum.splits)

section \<open>Properties of path validation\<close>

text \<open>
  Claim C1 says that a path inside an allowed directory whose last component is a
  symbolic link to a place outside every allowed directory is refused.  The source does
  throw \<^verbatim>\<open>Access denied - symlink target outside allowed directories\<close> (line 101),
  but inside the \<^verbatim>\<open>try\<close> block whose \<^verbatim>\<open>catch\<close> (line 106) then checks
  the parent directory instead.  The parent of such a link lies inside the allowed
  directory, so the path of the link is returned.
\<close>

lemma symlink_target_outside_falls_back:
  assumes "\<not> hasHiddenPart requestedPath"
    and "underAllowed vds (absoluteOf e requestedPath)"
    and "realpath ops fs (absoluteOf e requestedPath) = Inr realPath"
    and "\<not> underAllowed vds realPath"
    and "realpath ops fs (dirname (absoluteOf e requestedPath)) = Inr realParentPath"
    and "underAllowed vds realParentPath"
  shows "validatePath vds e ops fs requestedPath = Inr (absoluteOf e requestedPath)"
  using assms by (simp add: validatePath_unfold)

text \<open>
  Claim C1, at a concrete input: \<^verbatim>\<open>/vault/link\<close> resolves to
  \<^verbatim>\<open>/etc/passwd\<close>, which lies outside \<^verbatim>\<open>/vault\<close>; \<^verbatim>\<open>validatePath\<close>
  returns \<^verbatim>\<open>/vault/link\<close> all the same, and \<^verbatim>\<open>obsidian_read_notes\<close> then
  hands out the text of \<^verbatim>\<open>/etc/passwd\<close>.
\<close>

theorem symlink_escape_accepted:
  "realpath exampleOps exampleFiles ''/vault/link'' = Inr ''/etc/passwd''
   \<and> \<not> underAllowed [''/vault''] ''/etc/passwd''
   \<and> validatePath [''/vault''] exampleEnv exampleOps exampleFiles ''/vault/link''
       = Inr ''/vault/link''
   \<and> readNote exampleConfig exampleEnv exampleOps exampleFiles ''link''
       = ''link:\<newline>root:x:0:0\<newline>''"
proof -
  have "readNote exampleConfig exampleEnv exampleOps exampleFiles ''link''
          = ''link:\<newline>root:x:0:0\<newline>''"
    by (simp add: readNote_def example_vaultDirectories example_join_link
          example_validate_link example_readFile_link)
  with example_realpath_link example_not_allowed_passwd example_validate_link
  show ?thesis by (intro conjI)
qed

text \<open>
  Claim C2.  Whenever \<^verbatim>\<open>validatePath\<close> returns a path, the normalized form
  (\<^verbatim>\<open>path.normalize\<close>, then lower case) of that path starts with one of the
  allowed directories, which are stored normalized.  The path returned is either the
  real path of the absolute candidate or the absolute candidate itself, and the
  prefix property holds at both returns.
\<close>

theorem validated_path_confined:
  assumes "validatePath vds e ops fs requestedPath = Inr resolved"
  shows "(\<exists>dir. dir \<in> set vds \<and> startsWith (normalizePath resolved) dir)
         \<and> (realpath ops fs (absoluteOf e requestedPath) = Inr resolved
              \<or> resolved = absoluteOf e requestedPath)"
proof -
  let ?abs = "absoluteOf e requestedPath"
  from assms have allowed: "underAllowed vds ?abs"
    by (simp add: validatePath_unfold split: if_splits)
  from assms have cases: "(realpath ops fs ?abs = Inr resolved \<and> underAllowed vds resolved)
                          \<or> resolved = ?abs"
    by (auto simp add: validatePath_unfold split: if_splits sum.splits)
  with allowed have "underAllowed vds resolved" by auto
  then have "\<exists>dir. dir \<in> set vds \<and> startsWith (normalizePath resolved) dir"
    unfolding underAllowed_def list_ex_iff by blast
  with cases show ?thesis by blast
qed

theorem validated_path_confined_witness:
  "validatePath [''/vault''] exampleEnv exampleOps exampleFiles ''/vault/alias.md''
     = Inr ''/vault/a.md''
   \<and> (\<exists>dir. dir \<in> set [''/vault''] \<and> startsWith (normalizePath ''/vault/a.md'') dir)
   \<and> validatePath [''/vault''] exampleEnv exampleOps exampleFiles ''/vault/notes/new.md''
     = Inr ''/vault/notes/new.md''
   \<and> (\<exists>dir. dir \<in> set [''/vault''] \<and> startsWith (normalizePath ''/vault/notes/new.md'') dir)"
proof -
  have a: "\<exists>dir. dir \<in> set [''/vault''] \<and> startsWith (normalizePath ''/vault/a.md'') dir"
    using validated_path_confined [OF example_validate_alias] by (rule conjunct1)
  have b: "\<exists>dir. dir \<in> set [''/vault''] \<and> startsWith (normalizePath ''/vault/notes/new.md'') dir"
    using validated_path_confined [OF example_validate_new] by (rule conjunct1)
  from example_validate_alias a example_validate_new b show ?thesis
    by (intro conjI)
qed

text \<open>
  Claim C3.  A requested path with a segment (between separators) that starts with a
  dot is refused with an \<^verbatim>\<open>Access denied\<close> error, whatever the filesystem
  holds and wherever the segment stands.
\<close>

theorem hidden_segment_denied:
  assumes "part \<in> set (split sep requestedPath)" and "startsWith part ''.''"
  shows "\<exists>err. validatePath vds e ops fs requestedPath = Inl err \<and> accessDenied err"
proof -
  from assms have "hasHiddenPart requestedPath"
    unfolding hasHiddenPart_def list_ex_iff by blast
  then show ?thesis
    by (simp add: validatePath_unfold accessDenied_def)
qed

theorem hidden_segment_denied_witness:
  "''.secret.md'' \<in> set (split sep ''/vault/notes/.secret.md'')
   \<and> startsWith ''.secret.md'' ''.''
   \<and> (\<exists>err. validatePath [''/vault''] exampleEnv exampleOps exampleFiles
                ''/vault/notes/.secret.md'' = Inl err \<and> accessDenied err)
   \<and> ''.obsidian'' \<in> set (split sep ''/vault/.obsidian/app.json'')
   \<and> startsWith ''.obsidian'' ''.''
   \<and> (\<exists>err. validatePath [''/vault''] exampleEnv exampleOps exampleFiles
                ''/vault/.obsidian/app.json'' = Inl err \<and> accessDenied err)"
proof -
  have a: "''.secret.md'' \<in> set (split sep ''/vault/notes/.secret.md'')"
    by (simp add: sep_def)
  have s: "startsWith ''.secret.md'' ''.''" by simp
  have b: "''.obsidian'' \<in> set (split sep ''/vault/.obsidian/app.json'')"
    by (simp add: sep_def)
  have t: "startsWith ''.obsidian'' ''.''" by simp
  from a s hidden_segment_denied [OF a s] b t hidden_segment_denied [OF b t]
  show ?thesis by (intro conjI)
qed

text \<open>
  Claim C4.  When the normalized absolute form of the requested path starts with none of
  the allowed directories, \<^verbatim>\<open>validatePath\<close> throws an \<^verbatim>\<open>Access denied\<close>
  error, and it is the same error for every filesystem: the filesystem is not
  consulted.
\<close>

theorem outside_roots_denied:
  assumes "\<not> list_ex (\<lambda>dir. startsWith (normalizePath (absoluteOf e requestedPath)) dir) vds"
  shows "\<exists>err. accessDenied err
           \<and> (\<forall>(ops :: 'fs fsops) (fs :: 'fs). validatePath vds e ops fs requestedPath = Inl err)"
proof (cases "hasHiddenPart requestedPath")
  case True
  then show ?thesis
    by (intro exI [of _ "Error ''Access denied - hidden files/directories not allowed''"])
       (simp add: validatePath_unfold accessDenied_def)
next
  case False
  from assms have "\<not> underAllowed vds (absoluteOf e requestedPath)"
    by (simp add: underAllowed_def)
  with False show ?thesis
    by (intro exI [of _ "Error (''Access denied - path outside allowed directories: ''
            @ absoluteOf e requestedPath @ '' not in '' @ join '', '' vds)"])
       (simp add: validatePath_unfold accessDenied_def)
qed

theorem outside_roots_denied_witness:
  "absoluteOf exampleEnv ''notes/a.md'' = ''/srv/notes/a.md''
   \<and> \<not> list_ex (\<lambda>dir. startsWith (normalizePath (absoluteOf exampleEnv ''notes/a.md'')) dir) [''/vault'']
   \<and> (\<exists>err. accessDenied err
         \<and> (\<forall>(ops :: files fsops) fs. validatePath [''/vault''] exampleEnv ops fs ''notes/a.md'' = Inl err))"
proof -
  have a: "absoluteOf exampleEnv ''notes/a.md'' = ''/srv/notes/a.md''"
    by (simp add: path_eval example_eval)
  have n: "normalizePath ''/srv/notes/a.md'' = ''/srv/notes/a.md''"
    by (simp add: path_eval)
  have h: "\<not> list_ex (\<lambda>dir. startsWith (normalizePath (absoluteOf exampleEnv ''notes/a.md'')) dir) [''/vault'']"
    by (simp add: a n)
  from a h outside_roots_denied [OF h, where 'fs = files] show ?thesis
    by (intro conjI)
qed

text \<open>
  Claim C5.  For a requested path without hidden segment whose absolute form passes the
  prefix test and does not resolve (\<^verbatim>\<open>realpath\<close> fails), while its parent
  directory resolves to a real path under an allowed directory,
  \<^verbatim>\<open>validatePath\<close> returns the absolute form of the requested path itself.
\<close>

theorem new_file_returns_absolute:
  assumes "\<not> hasHiddenPart requestedPath"
    and "underAllowed vds (absoluteOf e requestedPath)"
    and "realpath ops fs (absoluteOf e requestedPath) = Inl err"
    and "realpath ops fs (dirname (absoluteOf e requestedPath)) = Inr realParentPath"
    and "underAllowed vds realParentPath"
  shows "validatePath vds e ops fs requestedPath = Inr (absoluteOf e requestedPath)"
  using assms by (simp add: validatePath_unfold)

theorem new_file_returns_absolute_witness:
  "\<not> hasHiddenPart ''/vault/notes/new.md''
   \<and> underAllowed [''/vault''] (absoluteOf exampleEnv ''/vault/notes/new.md'')
   \<and> realpath exampleOps exampleFiles (absoluteOf exampleEnv ''/vault/notes/new.md'')
       = Inl (Error ''ENOENT: no such file or directory'')
   \<and> realpath exampleOps exampleFiles (dirname (absoluteOf exampleEnv ''/vault/notes/new.md''))
       = Inr ''/vault/notes''
   \<and> underAllowed [''/vault''] ''/vault/notes''
   \<and> absoluteOf exampleEnv ''/vault/notes/new.md'' = ''/vault/notes/new.md''
   \<and> validatePath [''/vault''] exampleEnv exampleOps exampleFiles ''/vault/notes/new.md''
       = Inr ''/vault/notes/new.md''"
proof -
  have h2: "underAllowed [''/vault''] (absoluteOf exampleEnv ''/vault/notes/new.md'')"
    by (simp add: example_absolute_new example_allowed_new)
  have h3: "realpath exampleOps exampleFiles (absoluteOf exampleEnv ''/vault/notes/new.md'')
              = Inl (Error ''ENOENT: no such file or directory'')"
    by (simp add: example_absolute_new example_realpath_new)
  have h4: "realpath exampleOps exampleFiles
              (dirname (absoluteOf exampleEnv ''/vault/notes/new.md'')) = Inr ''/vault/notes''"
    by (simp add: example_absolute_new example_dirname_new example_realpath_notes)
  from new_file_returns_absolute [OF example_not_hidden_new h2 h3 h4 example_allowed_notes]
  have "validatePath [''/vault''] exampleEnv exampleOps exampleFiles ''/vault/notes/new.md''
          = Inr ''/vault/notes/new.md''"
    by (simp add: example_absolute_new)
  with example_not_hidden_new h2 h3 h4 example_allowed_notes example_absolute_new
  show ?thesis by (intro conjI)
qed

section \<open>Properties of the tool handlers\<close>

text \<open>
  Claim C6.  With more than 200 results the text of the search response is the first
  200 results, one per line, followed by a line that tells how many results are not
  shown (the number of results minus 200); with 200 results or fewer it is all the
  results and no such line.
\<close>

theorem search_results_capped:
  "(200 < length results \<longrightarrow>
      content (obsidian_search_notes results)
        = join ''\<newline>'' (take 200 results) @ ''\<newline>\<newline>... ''
          @ showNat (length results - 200) @ '' more results not shown.''
      \<and> length (take 200 results) = 200)
   \<and> (length results \<le> 200 \<longrightarrow>
      content (obsidian_search_notes results)
        = (if results = [] then ''No matches found'' else join ''\<newline>'' results))"
  by (auto simp add: obsidian_search_notes_def SEARCH_LIMIT_def)

theorem search_results_capped_witness:
  "200 < length (replicate 250 ''n.md'')
   \<and> content (obsidian_search_notes (replicate 250 ''n.md''))
       = join ''\<newline>'' (replicate 200 ''n.md'') @ ''\<newline>\<newline>... 50 more results not shown.''
   \<and> length [''a.md'', ''b.md''] \<le> 200
   \<and> content (obsidian_search_notes [''a.md'', ''b.md'']) = ''a.md\<newline>b.md''"
proof -
  have big: "200 < length (replicate 250 ''n.md'')" by simp
  have small: "length [''a.md'', ''b.md''] \<le> 200" by simp
  from search_results_capped [of "replicate 250 ''n.md''"] big
  have "content (obsidian_search_notes (replicate 250 ''n.md''))
          = join ''\<newline>'' (take 200 (replicate 250 ''n.md'')) @ ''\<newline>\<newline>... ''
            @ showNat (length (replicate 250 ''n.md'') - 200) @ '' more results not shown.''"
    by blast
  then have a: "content (obsidian_search_notes (replicate 250 ''n.md''))
       = join ''\<newline>'' (replicate 200 ''n.md'') @ ''\<newline>\<newline>... 50 more results not shown.''"
    by (simp add: showNat_50)
  from search_results_capped [of "[''a.md'', ''b.md'']"] small
  have "content (obsidian_search_notes [''a.md'', ''b.md''])
          = (if [''a.md'', ''b.md''] = [] then ''No matches found''
             else join ''\<newline>'' [''a.md'', ''b.md''])"
    by blast
  then have b: "content (obsidian_search_notes [''a.md'', ''b.md'']) = ''a.md\<newline>b.md''"
    by simp
  from big a small b show ?thesis by (intro conjI)
qed

text \<open>
  Claim C7.  The response of \<^verbatim>\<open>obsidian_read_notes\<close> is never flagged as an
  error; its text joins one fragment per input path, in the order of the paths.  The
  fragment of a path is the text of the file when validation and reading succeed, and
  otherwise the path followed by the message of the error, whatever happens to the
  other paths.
\<close>

theorem read_notes_per_item:
  "\<exists>results.
     obsidian_read_notes c e ops fs paths
       = \<lparr>content = join ''\<newline>---\<newline>'' results, isError = False\<rparr>
     \<and> length results = length paths
     \<and> (\<forall>i<length paths.
           results ! i =
             (case validatePath (vaultDirectories c e) e ops fs
                     (pathJoin [vaultDirectories c e ! 0, paths ! i]) of
                Inl err \<Rightarrow> paths ! i @ '': Error - '' @ message err
              | Inr validPath \<Rightarrow>
                  (case readFile ops fs validPath of
                     Inl err \<Rightarrow> paths ! i @ '': Error - '' @ message err
                   | Inr text \<Rightarrow> paths ! i @ '':\<newline>'' @ text @ ''\<newline>'')))"
proof (intro exI conjI allI impI)
  show "obsidian_read_notes c e ops fs paths
          = \<lparr>content = join ''\<newline>---\<newline>'' (map (readNote c e ops fs) paths), isError = False\<rparr>"
    by (simp add: obsidian_read_notes_def)
  show "length (map (readNote c e ops fs) paths) = length paths"
    by simp
  fix i assume "i < length paths"
  then show "map (readNote c e ops fs) paths ! i =
             (case validatePath (vaultDirectories c e) e ops fs
                     (pathJoin [vaultDirectories c e ! 0, paths ! i]) of
                Inl err \<Rightarrow> paths ! i @ '': Error - '' @ message err
              | Inr validPath \<Rightarrow>
                  (case readFile ops fs validPath of
                     Inl err \<Rightarrow> paths ! i @ '': Error - '' @ message err
                   | Inr text \<Rightarrow> paths ! i @ '':\<newline>'' @ text @ ''\<newline>''))"
    by (simp add: readNote_cases)
qed

theorem read_notes_per_item_witness:
  "obsidian_read_notes exampleConfig exampleEnv exampleOps exampleFiles
     [''a.md'', ''missing.md'', ''../etc/shadow'']
     = \<lparr>content = ''a.md:\<newline>alpha\<newline>\<newline>---\<newline>missing.md: Error - ENOENT: no such file or directory\<newline>---\<newline>../etc/shadow: Error - Access denied - path outside allowed directories: /etc/shadow not in /vault'',
        isError = False\<rparr>"
proof -
  let ?paths = "[''a.md'', ''missing.md'', ''../etc/shadow'']"
  from read_notes_per_item [of exampleConfig exampleEnv exampleOps exampleFiles ?paths]
  obtain results where
    res: "obsidian_read_notes exampleConfig exampleEnv exampleOps exampleFiles ?paths
            = \<lparr>content = join ''\<newline>---\<newline>'' results, isError = False\<rparr>"
    and len: "length results = length ?paths"
    and item: "\<forall>i<length ?paths.
           results ! i =
             (case validatePath (vaultDirectories exampleConfig exampleEnv) exampleEnv exampleOps
                     exampleFiles
                     (pathJoin [vaultDirectories exampleConfig exampleEnv ! 0, ?paths ! i]) of
                Inl err \<Rightarrow> ?paths ! i @ '': Error - '' @ message err
              | Inr validPath \<Rightarrow>
                  (case readFile exampleOps exampleFiles validPath of
                     Inl err \<Rightarrow> ?paths ! i @ '': Error - '' @ message err
                   | Inr text \<Rightarrow> ?paths ! i @ '':\<newline>'' @ text @ ''\<newline>''))"
    by blast
  have r0: "results ! 0 = ''a.md:\<newline>alpha\<newline>''"
    using item [rule_format, of 0]
    by (simp add: example_vaultDirectories example_join_a example_validate_a example_readFile_a)
  have r1: "results ! 1 = ''missing.md: Error - ENOENT: no such file or directory''"
    using item [rule_format, of 1]
    by (simp add: example_vaultDirectories example_join_missing example_validate_missing
          example_readFile_missing)
  have r2: "results ! 2 = ''../etc/shadow: Error - Access denied - path outside allowed directories: /etc/shadow not in /vault''"
    using item [rule_format, of 2]
    by (simp add: example_vaultDirectories example_join_escape example_validate_escape)
  from len obtain x y z where xyz: "results = [x, y, z]"
    by (cases results; cases "tl results"; cases "tl (tl results)") auto
  with r0 r1 r2 have "results = [''a.md:\<newline>alpha\<newline>'',
      ''missing.md: Error - ENOENT: no such file or directory'',
      ''../etc/shadow: Error - Access denied - path outside allowed directories: /etc/shadow not in /vault'']"
    by simp
  with res show ?thesis by simp
qed



text \<open>
  Claim C9.  When the path given to \<^verbatim>\<open>obsidian_write_note\<close> fails validation, the
  handler returns a response (it throws nothing): the response is flagged as an error,
  its text is the guidance message that lists the allowed directories, and the
  filesystem is the one the handler started with.
\<close>

theorem write_invalid_path_guidance:
  assumes "validatePath (vaultDirectories c e) e ops fs
             (pathJoin [vaultDirectories c e ! 0, path]) = Inl err"
  shows "obsidian_write_note c e ops fs path text
           = (\<lparr>content = ''Please specify the target directory. Available directories:\<newline>''
                          @ join ''\<newline>'' (vaultDirectories c e),
                isError = True\<rparr>, fs)"
  using assms by (simp add: obsidian_write_note_def Let_def)

theorem write_invalid_path_guidance_witness:
  "validatePath (vaultDirectories exampleConfig exampleEnv) exampleEnv exampleOps exampleFiles
     (pathJoin [vaultDirectories exampleConfig exampleEnv ! 0, ''../etc/shadow''])
     = Inl (Error ''Access denied - path outside allowed directories: /etc/shadow not in /vault'')
   \<and> obsidian_write_note exampleConfig exampleEnv exampleOps exampleFiles ''../etc/shadow'' ''x''
     = (\<lparr>content = ''Please specify the target directory. Available directories:\<newline>/vault'',
          isError = True\<rparr>, exampleFiles)"
proof -
  have h: "validatePath (vaultDirectories exampleConfig exampleEnv) exampleEnv exampleOps
             exampleFiles (pathJoin [vaultDirectories exampleConfig exampleEnv ! 0, ''../etc/shadow''])
           = Inl (Error ''Access denied - path outside allowed directories: /etc/shadow not in /vault'')"
    by (simp add: example_vaultDirectories example_join_escape example_validate_escape)
  from write_invalid_path_guidance [OF h, of "''x''"]
  have "obsidian_write_note exampleConfig exampleEnv exampleOps exampleFiles ''../etc/shadow'' ''x''
     = (\<lparr>content = ''Please specify the target directory. Available directories:\<newline>/vault'',
          isError = True\<rparr>, exampleFiles)"
    by (simp add: example_vaultDirectories)
  with h show ?thesis by (intro conjI)
qed

text \<open>
  Claim C10.  \<^verbatim>\<open>obsidian_read_notes\<close>, \<^verbatim>\<open>obsidian_read_notes_dir\<close> and
  \<^verbatim>\<open>obsidian_write_note\<close> validate \<^verbatim>\<open>path.join(vaultDirectories[0], p)\<close>
  for every argument \<open>p\<close>, which is the normalized form of the root, a slash and
  \<open>p\<close>.  When the working directory of the process is absolute, as it is for every
  process, the joined path is absolute, so its validation does not depend on the
  working directory or the home directory.  A failure of that validation is what each
  handler reports.  When it succeeds, the path it returns is the one path the handler
  hands to \<^verbatim>\<open>readFile\<close>, \<^verbatim>\<open>listDirs\<close> or \<^verbatim>\<open>writeFile\<close>, and the
  response is what that call gives: the argument itself never reaches the filesystem.
  An argument with leading slashes, one or many, is joined to the same path as the
  argument without them.
\<close>

theorem root_is_always_prepended:
  assumes "isAbsolute (cwd e)"
  shows "isAbsolute (pathJoin [vaultDirectories c e ! 0, p])
     \<and> validatePath vds e' ops fs (pathJoin [vaultDirectories c e ! 0, p])
         = validatePath vds e ops fs (pathJoin [vaultDirectories c e ! 0, p])
     \<and> (\<forall>err. validatePath (vaultDirectories c e) e ops fs (pathJoin [vaultDirectories c e ! 0, p])
                 = Inl err
           \<longrightarrow> readNote c e ops fs p = p @ '': Error - '' @ message err
               \<and> obsidian_read_notes_dir depth c e ops fs p = Some (Inl err)
               \<and> isError (fst (obsidian_write_note c e ops fs p written))
               \<and> snd (obsidian_write_note c e ops fs p written) = fs)
     \<and> (p \<noteq> [] \<longrightarrow>
           pathJoin [vaultDirectories c e ! 0, ''/'' @ p] = pathJoin [vaultDirectories c e ! 0, p]
           \<and> obsidian_read_notes_dir depth c e ops fs (''/'' @ p)
               = obsidian_read_notes_dir depth c e ops fs p
           \<and> snd (obsidian_write_note c e ops fs (''/'' @ p) written)
               = snd (obsidian_write_note c e ops fs p written)
           \<and> isError (fst (obsidian_write_note c e ops fs (''/'' @ p) written))
               = isError (fst (obsidian_write_note c e ops fs p written))
           \<and> (\<exists>rest. readNote c e ops fs (''/'' @ p) = ''/'' @ p @ rest
                      \<and> readNote c e ops fs p = p @ rest))
     \<and> (\<forall>validPath.
           validatePath (vaultDirectories c e) e ops fs (pathJoin [vaultDirectories c e ! 0, p])
             = Inr validPath
           \<longrightarrow> readNote c e ops fs p
                 = (case readFile ops fs validPath of
                      Inl err \<Rightarrow> p @ '': Error - '' @ message err
                    | Inr t \<Rightarrow> p @ '':\<newline>'' @ t @ ''\<newline>'')
               \<and> obsidian_read_notes_dir depth c e ops fs p
                 = (case listDirs depth c e ops fs validPath [] of
                      None \<Rightarrow> None
                    | Some (Inl err) \<Rightarrow> Some (Inl err)
                    | Some (Inr dirs) \<Rightarrow>
                        Some (Inr \<lparr>content = join ''\<newline>'' dirs, isError = False\<rparr>))
               \<and> obsidian_write_note c e ops fs p written
                 = (case writeFile ops fs validPath written of
                      Inl err \<Rightarrow>
                        (\<lparr>content =
                            ''Please specify the target directory. Available directories:\<newline>''
                            @ join ''\<newline>'' (vaultDirectories c e),
                          isError = True\<rparr>, fs)
                    | Inr fs' \<Rightarrow>
                        (\<lparr>content = ''Note successfully written to '' @ p, isError = False\<rparr>,
                         fs')))
     \<and> pathJoin [vaultDirectories c e ! 0, p]
         = normalize (vaultDirectories c e ! 0 @ (if p = [] then [] else ''/'' @ p))
     \<and> (p \<noteq> [] \<longrightarrow>
           pathJoin [vaultDirectories c e ! 0, replicate n CHR ''/'' @ p]
             = pathJoin [vaultDirectories c e ! 0, p])"
proof -
  let ?root = "vaultDirectories c e ! 0"
  from assms have root: "isAbsolute ?root" by (rule isAbsolute_root)
  then have rootne: "?root \<noteq> []" by (auto simp add: isAbsolute_Cons)
  from root have cand: "isAbsolute (pathJoin [?root, p])" by (rule isAbsolute_pathJoin)
  have env: "validatePath vds e' ops fs (pathJoin [?root, p])
               = validatePath vds e ops fs (pathJoin [?root, p])"
    using cand by (rule validatePath_env_irrelevant)
  have fail: "\<forall>err. validatePath (vaultDirectories c e) e ops fs (pathJoin [?root, p]) = Inl err
           \<longrightarrow> readNote c e ops fs p = p @ '': Error - '' @ message err
               \<and> obsidian_read_notes_dir depth c e ops fs p = Some (Inl err)
               \<and> isError (fst (obsidian_write_note c e ops fs p written))
               \<and> snd (obsidian_write_note c e ops fs p written) = fs"
    by (simp add: readNote_def obsidian_read_notes_dir_def obsidian_write_note_def Let_def)
  have slash: "p \<noteq> [] \<longrightarrow>
           pathJoin [?root, ''/'' @ p] = pathJoin [?root, p]
           \<and> obsidian_read_notes_dir depth c e ops fs (''/'' @ p)
               = obsidian_read_notes_dir depth c e ops fs p
           \<and> snd (obsidian_write_note c e ops fs (''/'' @ p) written)
               = snd (obsidian_write_note c e ops fs p written)
           \<and> isError (fst (obsidian_write_note c e ops fs (''/'' @ p) written))
               = isError (fst (obsidian_write_note c e ops fs p written))
           \<and> (\<exists>rest. readNote c e ops fs (''/'' @ p) = ''/'' @ p @ rest
                      \<and> readNote c e ops fs p = p @ rest)"
  proof
    assume p: "p \<noteq> []"
    from rootne have j: "pathJoin [?root, ''/'' @ p] = pathJoin [?root, p]"
      using p by (rule pathJoin_leading_sep)
    have d: "obsidian_read_notes_dir depth c e ops fs (''/'' @ p)
               = obsidian_read_notes_dir depth c e ops fs p"
      unfolding obsidian_read_notes_dir_def Let_def j by (rule refl)
    have w1: "snd (obsidian_write_note c e ops fs (''/'' @ p) written)
               = snd (obsidian_write_note c e ops fs p written)"
      unfolding obsidian_write_note_def Let_def j by (simp split: sum.splits)
    have w2: "isError (fst (obsidian_write_note c e ops fs (''/'' @ p) written))
               = isError (fst (obsidian_write_note c e ops fs p written))"
      unfolding obsidian_write_note_def Let_def j by (simp split: sum.splits)
    have r: "\<exists>rest. readNote c e ops fs (''/'' @ p) = ''/'' @ p @ rest
                      \<and> readNote c e ops fs p = p @ rest"
      unfolding readNote_def Let_def j by (simp split: sum.splits)
    from j d w1 w2 r
    show "pathJoin [?root, ''/'' @ p] = pathJoin [?root, p]
           \<and> obsidian_read_notes_dir depth c e ops fs (''/'' @ p)
               = obsidian_read_notes_dir depth c e ops fs p
           \<and> snd (obsidian_write_note c e ops fs (''/'' @ p) written)
               = snd (obsidian_write_note c e ops fs p written)
           \<and> isError (fst (obsidian_write_note c e ops fs (''/'' @ p) written))
               = isError (fst (obsidian_write_note c e ops fs p written))
           \<and> (\<exists>rest. readNote c e ops fs (''/'' @ p) = ''/'' @ p @ rest
                      \<and> readNote c e ops fs p = p @ rest)"
      by (intro conjI)
  qed
  have success: "\<forall>validPath.
           validatePath (vaultDirectories c e) e ops fs (pathJoin [?root, p]) = Inr validPath
           \<longrightarrow> readNote c e ops fs p
                 = (case readFile ops fs validPath of
                      Inl err \<Rightarrow> p @ '': Error - '' @ message err
                    | Inr t \<Rightarrow> p @ '':\<newline>'' @ t @ ''\<newline>'')
               \<and> obsidian_read_notes_dir depth c e ops fs p
                 = (case listDirs depth c e ops fs validPath [] of
                      None \<Rightarrow> None
                    | Some (Inl err) \<Rightarrow> Some (Inl err)
                    | Some (Inr dirs) \<Rightarrow>
                        Some (Inr \<lparr>content = join ''\<newline>'' dirs, isError = False\<rparr>))
               \<and> obsidian_write_note c e ops fs p written
                 = (case writeFile ops fs validPath written of
                      Inl err \<Rightarrow>
                        (\<lparr>content =
                            ''Please specify the target directory. Available directories:\<newline>''
                            @ join ''\<newline>'' (vaultDirectories c e),
                          isError = True\<rparr>, fs)
                    | Inr fs' \<Rightarrow>
                        (\<lparr>content = ''Note successfully written to '' @ p, isError = False\<rparr>,
                         fs'))"
    using handlers_on_valid_path [where c = c and e = e and ops = ops and fs = fs and p = p]
    by blast
  have form: "pathJoin [?root, p] = normalize (?root @ (if p = [] then [] else ''/'' @ p))"
    using rootne by (rule pathJoin_two)
  have slashes: "p \<noteq> [] \<longrightarrow> pathJoin [?root, replicate n CHR ''/'' @ p] = pathJoin [?root, p]"
    using rootne by (simp add: pathJoin_leading_seps)
  from cand env fail slash success form slashes show ?thesis by (intro conjI)
qed


theorem root_is_always_prepended_witness:
  "isAbsolute (cwd exampleEnv)
   \<and> pathJoin [vaultDirectories exampleConfig exampleEnv ! 0, ''/etc/passwd'']
       = ''/vault/etc/passwd''
   \<and> isAbsolute (pathJoin [vaultDirectories exampleConfig exampleEnv ! 0, ''etc/passwd''])
   \<and> validatePath [''/vault''] \<lparr>cwd = ''/tmp'', homedir = ''/root''\<rparr> exampleOps exampleFiles
         ''/vault/etc/passwd''
       = Inl (Error ''Parent directory does not exist: /vault/etc'')
   \<and> readNote exampleConfig exampleEnv exampleOps exampleFiles ''/etc/passwd''
       = ''/etc/passwd: Error - Parent directory does not exist: /vault/etc''
   \<and> obsidian_read_notes_dir 3 exampleConfig exampleEnv exampleOps exampleFiles ''/etc/passwd''
       = Some (Inl (Error ''Parent directory does not exist: /vault/etc''))
   \<and> pathJoin [vaultDirectories exampleConfig exampleEnv ! 0, ''///etc/passwd'']
       = ''/vault/etc/passwd''
   \<and> readNote exampleConfig exampleEnv exampleOps exampleFiles ''a.md''
       = ''a.md:\<newline>alpha\<newline>''
   \<and> obsidian_write_note exampleConfig exampleEnv exampleOps exampleFiles ''a.md'' ''beta''
       = (\<lparr>content = ''Note successfully written to a.md'', isError = False\<rparr>,
          exampleFiles(''/vault/a.md'' \<mapsto> ''beta''))
   \<and> obsidian_read_notes_dir (Suc (Suc 0)) exampleConfig exampleEnv exampleOps exampleFiles []
       = Some (Inr \<lparr>content = ''/notes'', isError = False\<rparr>)"
proof -
  let ?root = "vaultDirectories exampleConfig exampleEnv ! 0"
  have h: "isAbsolute (cwd exampleEnv)"
    by (simp add: exampleEnv_def isAbsolute_def)
  have ne: "''etc/passwd'' \<noteq> []" by simp
  have root: "?root = ''/vault''"
    by (simp add: example_vaultDirectories)
  txt \<open>An argument that looks absolute, and fails validation below the root.\<close>
  note t = root_is_always_prepended [OF h, where c = exampleConfig and p = "''etc/passwd''"
      and vds = "[''/vault'']" and e' = "\<lparr>cwd = ''/tmp'', homedir = ''/root''\<rparr>"
      and ops = exampleOps and fs = exampleFiles and depth = "3" and written = "''x''"
      and n = "3"]
  note cand = t [THEN conjunct1]
  note env = t [THEN conjunct2, THEN conjunct1]
  note onfail = t [THEN conjunct2, THEN conjunct2, THEN conjunct1, rule_format]
  note slash = t [THEN conjunct2, THEN conjunct2, THEN conjunct2, THEN conjunct1, THEN mp, OF ne]
  note slashes = t [THEN conjunct2, THEN conjunct2, THEN conjunct2, THEN conjunct2,
      THEN conjunct2, THEN conjunct2, THEN mp, OF ne]
  from slash [THEN conjunct1] have j: "pathJoin [?root, ''/etc/passwd''] = ''/vault/etc/passwd''"
    by (simp add: root example_join_passwd)
  from slashes have j3: "pathJoin [?root, ''///etc/passwd''] = ''/vault/etc/passwd''"
    by (simp add: root example_join_passwd numeral_3_eq_3)
  from env have v: "validatePath [''/vault''] \<lparr>cwd = ''/tmp'', homedir = ''/root''\<rparr> exampleOps
         exampleFiles ''/vault/etc/passwd''
       = Inl (Error ''Parent directory does not exist: /vault/etc'')"
    by (simp add: root example_join_passwd example_validate_passwd)
  have f: "validatePath (vaultDirectories exampleConfig exampleEnv) exampleEnv exampleOps
             exampleFiles (pathJoin [?root, ''etc/passwd''])
           = Inl (Error ''Parent directory does not exist: /vault/etc'')"
    by (simp add: example_vaultDirectories example_join_passwd example_validate_passwd)
  from slash [THEN conjunct2, THEN conjunct2, THEN conjunct2, THEN conjunct2]
  obtain rest where r1: "readNote exampleConfig exampleEnv exampleOps exampleFiles
        (''/'' @ ''etc/passwd'') = ''/'' @ ''etc/passwd'' @ rest"
    and r2: "readNote exampleConfig exampleEnv exampleOps exampleFiles ''etc/passwd''
        = ''etc/passwd'' @ rest"
    by blast
  from onfail [OF f, THEN conjunct1] r2
  have "rest = '': Error - Parent directory does not exist: /vault/etc''"
    by simp
  with r1 have rd: "readNote exampleConfig exampleEnv exampleOps exampleFiles ''/etc/passwd''
       = ''/etc/passwd: Error - Parent directory does not exist: /vault/etc''"
    by simp
  from slash [THEN conjunct2, THEN conjunct1] onfail [OF f, THEN conjunct2, THEN conjunct1]
  have ld: "obsidian_read_notes_dir 3 exampleConfig exampleEnv exampleOps exampleFiles ''/etc/passwd''
       = Some (Inl (Error ''Parent directory does not exist: /vault/etc''))"
    by simp
  txt \<open>An argument that passes validation: the file read and written is the validated path.\<close>
  note u = root_is_always_prepended [OF h, where c = exampleConfig and p = "''a.md''"
      and ops = exampleOps and fs = exampleFiles and written = "''beta''"]
  note onvalid = u [THEN conjunct2, THEN conjunct2, THEN conjunct2, THEN conjunct2,
      THEN conjunct1, rule_format]
  have g: "validatePath (vaultDirectories exampleConfig exampleEnv) exampleEnv exampleOps
             exampleFiles (pathJoin [?root, ''a.md'']) = Inr ''/vault/a.md''"
    by (simp add: example_vaultDirectories example_join_a example_validate_a)
  from onvalid [OF g, THEN conjunct1]
  have ra: "readNote exampleConfig exampleEnv exampleOps exampleFiles ''a.md''
       = ''a.md:\<newline>alpha\<newline>''"
    by (simp add: example_readFile_a)
  from onvalid [OF g, THEN conjunct2, THEN conjunct2]
  have wa: "obsidian_write_note exampleConfig exampleEnv exampleOps exampleFiles ''a.md'' ''beta''
       = (\<lparr>content = ''Note successfully written to a.md'', isError = False\<rparr>,
          exampleFiles(''/vault/a.md'' \<mapsto> ''beta''))"
    by (simp add: example_write_alias)
  txt \<open>The empty argument: the directories listed are those below the validated root.\<close>
  note w = root_is_always_prepended [OF h, where c = exampleConfig and p = "[]"
      and ops = exampleOps and fs = exampleFiles and depth = "Suc (Suc 0)"]
  note onroot = w [THEN conjunct2, THEN conjunct2, THEN conjunct2, THEN conjunct2,
      THEN conjunct1, rule_format]
  have k: "validatePath (vaultDirectories exampleConfig exampleEnv) exampleEnv exampleOps
             exampleFiles (pathJoin [?root, []]) = Inr ''/vault''"
    by (simp add: example_vaultDirectories example_join_empty example_validate_vault)
  from onroot [OF k, THEN conjunct2, THEN conjunct1]
  have la: "obsidian_read_notes_dir (Suc (Suc 0)) exampleConfig exampleEnv exampleOps exampleFiles []
       = Some (Inr \<lparr>content = ''/notes'', isError = False\<rparr>)"
    unfolding example_listDirs_vault by simp
  from h j cand v rd ld j3 ra wa la show ?thesis by (intro conjI)
qed

end
